theory Spec2Isabelle
  imports Main
begin

section \<open>JavaScript values used by the components\<close>

text \<open>
  The source tests values for truthiness (\<^verbatim>\<open>!resourceReview?.id\<close>, \<^verbatim>\<open>if (request.details)\<close>).
  A number is falsy when it is 0, a string when it is empty, and \<^verbatim>\<open>undefined\<close>/\<^verbatim>\<open>null\<close>
  (modelled as \<open>None\<close>) always. Ratings and identifiers are integers: the rating control is
  rendered without fractions.
\<close>

definition truthy_number :: "int option \<Rightarrow> bool" where
  "truthy_number n = (case n of None \<Rightarrow> False | Some k \<Rightarrow> k \<noteq> 0)"

definition truthy_string :: "string option \<Rightarrow> bool" where
  "truthy_string s = (case s of None \<Rightarrow> False | Some t \<Rightarrow> t \<noteq> [])"

text \<open>The nullish coalescing \<^verbatim>\<open>x ?? d\<close>.\<close>

definition nullish_or :: "'a option \<Rightarrow> 'a \<Rightarrow> 'a" where
  "nullish_or x d = (case x of None \<Rightarrow> d | Some v \<Rightarrow> v)"

section \<open>The review widget (EditUserResourceReview and EditUserResourceReviewV2)\<close>

subsection \<open>Data\<close>

text \<open>The fields of \<^verbatim>\<open>ResourceReviewModel\<close> that the handlers read.\<close>

record ResourceReviewModel =
  rr_id :: int
  rr_rating :: "int option"
  rr_details :: "string option"

text \<open>\<^verbatim>\<open>Props\<close> and \<^verbatim>\<open>PropsV2\<close>: both carry \<^verbatim>\<open>modelVersionId\<close>.\<close>

record VersionProps =
  modelVersionId :: int

record Props = VersionProps +
  resourceReview :: "ResourceReviewModel option"
  modelId :: int
  openedCommentBox :: bool

record PropsV2 = VersionProps +
  userReview :: "ResourceReviewModel option"

text \<open>The payloads of \<^verbatim>\<open>createMutation.mutate\<close> and \<^verbatim>\<open>updateMutation.mutate\<close>.\<close>

record CreatePayload =
  cp_modelVersionId :: int
  cp_modelId :: int
  cp_rating :: int
  cp_recommended :: bool

record UpdatePayload =
  up_id :: int
  up_rating :: "int option"
  up_details :: "string option"

datatype mutation_call = CreateCall CreatePayload | UpdateCall UpdatePayload

text \<open>
  Modelled from the spec: the form controller (\<^verbatim>\<open>useForm\<close> of \<^verbatim>\<open>~/libs/form\<close>), which is not
  among the sources. The spec gives it the current value of the single field \<^verbatim>\<open>details\<close>, a
  baseline set by the last reset, a dirty flag that is true iff the current value differs from
  the baseline, a \<^verbatim>\<open>reset(values)\<close> operation, and a \<^verbatim>\<open>handleSubmit(handler)\<close> wrapper that
  validates and then invokes the handler with the parsed values. The schema is
  \<^verbatim>\<open>details: z.string().optional()\<close>, which every string passes.
\<close>

record FormState =
  fieldValue :: string
  defaultValue :: string

definition isDirty :: "FormState \<Rightarrow> bool" where
  "isDirty f = (fieldValue f \<noteq> defaultValue f)"

definition form_reset :: "string \<Rightarrow> FormState \<Rightarrow> FormState" where
  "form_reset d f = f\<lparr>fieldValue := d, defaultValue := d\<rparr>"

definition useForm :: "string \<Rightarrow> FormState" where
  "useForm d = \<lparr>fieldValue = d, defaultValue = d\<rparr>"

text \<open>The user typing in the editor.\<close>

definition form_edit :: "string \<Rightarrow> FormState \<Rightarrow> FormState" where
  "form_edit v f = f\<lparr>fieldValue := v\<rparr>"

text \<open>
  The state of one widget instance. \<open>calls\<close> records, in order, every \<^verbatim>\<open>mutate\<close> call issued
  to the mutation client. \<open>focusTimers\<close> records the delays of the \<^verbatim>\<open>setTimeout\<close> calls that
  move the focus into the comment editor.
\<close>

record Widget =
  form :: FormState
  calls :: "mutation_call list"

record Editor = Widget +
  editDetail :: bool
  focusTimers :: "nat list"

record EditorV2 = Widget +
  opened :: bool

subsection \<open>EditUserResourceReview\<close>

definition mount :: "Props \<Rightarrow> Editor" where
  "mount p = \<lparr>form = useForm (nullish_or (Option.bind (resourceReview p) rr_details) []),
              calls = [],
              editDetail = openedCommentBox p,
              focusTimers = []\<rparr>"

text \<open>
  \<^verbatim>\<open>toggleEditDetail\<close> flips the state with a functional update, and tests the \<^verbatim>\<open>editDetail\<close>
  of the render that created the closure; \<open>seen\<close> is that value.
\<close>

definition toggleEditDetail :: "bool \<Rightarrow> Editor \<Rightarrow> Editor" where
  "toggleEditDetail seen s =
     (let s' = s\<lparr>editDetail := \<not> editDetail s\<rparr>
      in if \<not> seen then s'\<lparr>focusTimers := focusTimers s' @ [100]\<rparr> else s')"

definition createReviewWithRating :: "Props \<Rightarrow> int \<Rightarrow> Editor \<Rightarrow> Editor" where
  "createReviewWithRating p rating s =
     s\<lparr>calls := calls s @
        [CreateCall \<lparr>cp_modelVersionId = modelVersionId p, cp_modelId = modelId p,
                     cp_rating = rating, cp_recommended = (rating \<ge> 3)\<rparr>]\<rparr>"

definition updateReview :: "Props \<Rightarrow> int option \<Rightarrow> string option \<Rightarrow> Editor \<Rightarrow> Editor" where
  "updateReview p rating details s =
     (case resourceReview p of
        None \<Rightarrow> s
      | Some rv \<Rightarrow>
          s\<lparr>calls := calls s @
             [UpdateCall \<lparr>up_id = rr_id rv, up_rating = rating, up_details = details\<rparr>]\<rparr>)"

text \<open>
  The \<^verbatim>\<open>onSuccess\<close> callback passed with the update call; the mutation client invokes it
  once per successful call, with the request payload that was sent.
\<close>

definition updateReview_onSuccess :: "bool \<Rightarrow> UpdatePayload \<Rightarrow> Editor \<Rightarrow> Editor" where
  "updateReview_onSuccess seen request s =
     (if truthy_string (up_details request)
      then (let s' = toggleEditDetail seen s
            in s'\<lparr>form := form_reset (nullish_or (up_details request) []) (form s')\<rparr>)
      else s)"

definition handleSubmit :: "Props \<Rightarrow> string option \<Rightarrow> Editor \<Rightarrow> Editor" where
  "handleSubmit p details s = updateReview p None details s"

definition handleRatingChange :: "Props \<Rightarrow> int \<Rightarrow> Editor \<Rightarrow> Editor" where
  "handleRatingChange p rating s =
     (if \<not> truthy_number (map_option rr_id (resourceReview p))
      then createReviewWithRating p rating s
      else updateReview p (Some rating) None s)"

text \<open>
  Modelled from the spec: \<^verbatim>\<open>form.handleSubmit(handleSubmit)()\<close> of the form controller
  validates the field values and then calls the handler with them; every string passes the
  schema. Submitting the rendered form runs the same wrapper.
\<close>

definition form_handleSubmit :: "Props \<Rightarrow> Editor \<Rightarrow> Editor" where
  "form_handleSubmit p s = handleSubmit p (Some (fieldValue (form s))) s"

definition save :: "Props \<Rightarrow> Editor \<Rightarrow> Editor" where
  "save p s = (if isDirty (form s) then form_handleSubmit p s else s)"

text \<open>The body of the effect that depends on \<^verbatim>\<open>resourceReview?.details\<close>.\<close>

definition resync :: "Props \<Rightarrow> Editor \<Rightarrow> Editor" where
  "resync p s =
     s\<lparr>form := form_reset (nullish_or (Option.bind (resourceReview p) rr_details) []) (form s)\<rparr>"

text \<open>
  A render with new props: the effect runs when its dependency \<^verbatim>\<open>resourceReview?.details\<close>
  has changed. The dependency is undefined when there is no entity (\<open>None\<close>), null when the
  entity has no comment (\<open>Some None\<close>), and the comment otherwise; the comparison keeps the
  three apart.
\<close>

definition rerender :: "Props \<Rightarrow> Props \<Rightarrow> Editor \<Rightarrow> Editor" where
  "rerender old new s =
     (if map_option rr_details (resourceReview old) \<noteq> map_option rr_details (resourceReview new)
      then resync new s else s)"

subsection \<open>EditUserResourceReviewV2\<close>

definition mountV2 :: "PropsV2 \<Rightarrow> EditorV2" where
  "mountV2 p = \<lparr>form = useForm (nullish_or (Option.bind (userReview p) rr_details) []),
                calls = [],
                opened = False\<rparr>"

definition handleToggleOpen :: "EditorV2 \<Rightarrow> EditorV2" where
  "handleToggleOpen s = s\<lparr>opened := \<not> opened s\<rparr>"

definition updateReviewV2 :: "PropsV2 \<Rightarrow> int option \<Rightarrow> string option \<Rightarrow> EditorV2 \<Rightarrow> EditorV2" where
  "updateReviewV2 p rating details s =
     (case userReview p of
        None \<Rightarrow> s
      | Some rv \<Rightarrow>
          s\<lparr>calls := calls s @
             [UpdateCall \<lparr>up_id = rr_id rv, up_rating = rating, up_details = details\<rparr>]\<rparr>)"

definition updateReviewV2_onSuccess :: "UpdatePayload \<Rightarrow> EditorV2 \<Rightarrow> EditorV2" where
  "updateReviewV2_onSuccess payload s =
     (if truthy_string (up_details payload)
      then (let s' = handleToggleOpen s
            in s'\<lparr>form := form_reset (nullish_or (up_details payload) []) (form s')\<rparr>)
      else s)"

definition handleSubmitV2 :: "PropsV2 \<Rightarrow> string option \<Rightarrow> EditorV2 \<Rightarrow> EditorV2" where
  "handleSubmitV2 p details s = updateReviewV2 p None details s"

definition handleCancel :: "PropsV2 \<Rightarrow> EditorV2 \<Rightarrow> EditorV2" where
  "handleCancel p s =
     handleToggleOpen
       (s\<lparr>form := form_reset (nullish_or (Option.bind (userReview p) rr_details) []) (form s)\<rparr>)"

text \<open>Modelled from the spec: the same wrapper of the form controller, for this variant.\<close>

definition form_handleSubmitV2 :: "PropsV2 \<Rightarrow> EditorV2 \<Rightarrow> EditorV2" where
  "form_handleSubmitV2 p s = handleSubmitV2 p (Some (fieldValue (form s))) s"

definition saveV2 :: "PropsV2 \<Rightarrow> EditorV2 \<Rightarrow> EditorV2" where
  "saveV2 p s = (if isDirty (form s) then form_handleSubmitV2 p s else s)"

definition resyncV2 :: "PropsV2 \<Rightarrow> EditorV2 \<Rightarrow> EditorV2" where
  "resyncV2 p s =
     s\<lparr>form := form_reset (nullish_or (Option.bind (userReview p) rr_details) []) (form s)\<rparr>"

text \<open>The same for the dependency \<^verbatim>\<open>userReview?.details\<close>.\<close>

definition rerenderV2 :: "PropsV2 \<Rightarrow> PropsV2 \<Rightarrow> EditorV2 \<Rightarrow> EditorV2" where
  "rerenderV2 old new s =
     (if map_option rr_details (userReview old) \<noteq> map_option rr_details (userReview new)
      then resyncV2 new s else s)"

section \<open>Server-side props (createServerSideProps)\<close>

subsection \<open>Data\<close>

text \<open>A rejected promise or a thrown exception, with its reason.\<close>

datatype error = Rejected string

text \<open>
  \<^verbatim>\<open>Session\<close>, \<^verbatim>\<open>FeatureAccess\<close> and \<^verbatim>\<open>Redirect\<close> are imported types; the records keep the
  fields the handler reads or passes on. The request carries its \<^verbatim>\<open>url\<close>, which may be
  undefined, and the \<^verbatim>\<open>session\<close> that upstream middleware may have attached.
\<close>

record Session =
  user :: "string option"
  expires :: string

type_synonym FeatureAccess = "string list"

record Redirect =
  destination :: string
  permanent :: bool

record Request =
  url :: "string option"
  attachedSession :: "Session option"

record GetServerSidePropsContext =
  req :: Request
  resolvedUrl :: string

text \<open>
  The helper object built by \<^verbatim>\<open>createServerSideHelpers\<close>: the context it was created with and
  the query cache that prefetching fills; \<^verbatim>\<open>dehydrate()\<close> serialises the cache.
\<close>

type_synonym DehydratedState = "(string \<times> string) list"

record SSGHelpers =
  ssg_user :: "string option"
  ssg_acceptableOrigin :: bool
  ssg_features :: FeatureAccess
  queryCache :: DehydratedState

definition dehydrate :: "SSGHelpers \<Rightarrow> DehydratedState" where
  "dehydrate h = queryCache h"

text \<open>
  A props object maps keys to values: the session, the serialised prefetch snapshot, or data
  of the page (kept as text).
\<close>

datatype prop_value =
    SessionValue "Session option"
  | TrpcState DehydratedState
  | PageData string

type_synonym PropsObject = "string \<rightharpoonup> prop_value"

text \<open>
  \<^verbatim>\<open>GetPropsFnResult\<close>, every field of which may be absent at run time. The handler's own
  return value is an object of the same three keys.
\<close>

record GetPropsFnResult =
  props :: "PropsObject option"
  redirect :: "Redirect option"
  notFound :: "bool option"

datatype Prefetch = always | once

record CustomGetServerSidePropsContext =
  ctx :: GetServerSidePropsContext
  isClient :: bool
  ssg :: "SSGHelpers option"
  session :: "Session option"
  features :: FeatureAccess

text \<open>
  What one run of the caller's resolver yields: its return value (\<open>None\<close> for
  \<^verbatim>\<open>void\<close>/\<^verbatim>\<open>undefined\<close>) and the queries it has prefetched into the helper it was given.
\<close>

record ResolverRun =
  result :: "GetPropsFnResult option"
  prefetched :: DehydratedState

record CreateServerSidePropsProps =
  resolver :: "CustomGetServerSidePropsContext \<Rightarrow> error + ResolverRun"
  useSSG :: "bool option"
  useSession :: "bool option"
  prefetch :: "Prefetch option"

text \<open>The collaborators the handler awaits; each may reject.\<close>

record Collaborators =
  getServerAuthSession :: "GetServerSidePropsContext \<Rightarrow> error + Session option"
  getFeatureFlagsLazy :: "string option \<Rightarrow> Request \<Rightarrow> error + FeatureAccess"

subsection \<open>The handler\<close>

text \<open>\<^verbatim>\<open>String.prototype.startsWith\<close>.\<close>

definition startsWith :: "string \<Rightarrow> string \<Rightarrow> bool" where
  "startsWith s p = (take (length p) s = p)"

definition getServerProxySSGHelpers ::
  "GetServerSidePropsContext \<Rightarrow> Session option \<Rightarrow> FeatureAccess \<Rightarrow> SSGHelpers" where
  "getServerProxySSGHelpers context sess feats =
     \<lparr>ssg_user = Option.bind sess user, ssg_acceptableOrigin = True,
      ssg_features = feats, queryCache = []\<rparr>"

text \<open>Line 41: \<^verbatim>\<open>context.req.url?.startsWith('/_next/data') ?? false\<close>.\<close>

definition request_isClient :: "GetServerSidePropsContext \<Rightarrow> bool" where
  "request_isClient context =
     nullish_or (map_option (\<lambda>u. startsWith u ''/_next/data'') (url (req context))) False"

text \<open>Lines 42-43: the session of the request, else the resolved one, else null.\<close>

definition resolve_session ::
  "Collaborators \<Rightarrow> CreateServerSidePropsProps \<Rightarrow> GetServerSidePropsContext
     \<Rightarrow> error + Session option" where
  "resolve_session env opts context =
     (case attachedSession (req context) of
        Some s \<Rightarrow> Inr (Some s)
      | None \<Rightarrow>
          (if nullish_or (useSession opts) False
           then getServerAuthSession env context
           else Inr None))"

text \<open>Lines 46-49: the prefetch context, or undefined.\<close>

definition build_ssg ::
  "CreateServerSidePropsProps \<Rightarrow> bool \<Rightarrow> GetServerSidePropsContext \<Rightarrow> Session option
     \<Rightarrow> FeatureAccess \<Rightarrow> SSGHelpers option" where
  "build_ssg opts client context sess feats =
     (if nullish_or (useSSG opts) False \<and>
         (nullish_or (prefetch opts) once = always \<or> \<not> client)
      then Some (getServerProxySSGHelpers context sess feats)
      else None)"

text \<open>Lines 41-56: the argument the resolver is called with.\<close>

definition resolver_argument ::
  "Collaborators \<Rightarrow> CreateServerSidePropsProps \<Rightarrow> GetServerSidePropsContext
     \<Rightarrow> error + CustomGetServerSidePropsContext" where
  "resolver_argument env opts context =
     (let client = request_isClient context in
      case resolve_session env opts context of
        Inl e \<Rightarrow> Inl e
      | Inr sess \<Rightarrow>
          (case getFeatureFlagsLazy env (Option.bind sess user) (req context) of
             Inl e \<Rightarrow> Inl e
           | Inr feats \<Rightarrow>
               Inr \<lparr>ctx = context, isClient = client,
                    ssg = build_ssg opts client context sess feats,
                    session = sess, features = feats\<rparr>))"

text \<open>
  Lines 67-74: the object spread; a later key replaces an earlier one. \<open>helper\<close> is the
  prefetch context as the resolver left it.
\<close>

definition merged_props ::
  "Session option \<Rightarrow> PropsObject option \<Rightarrow> SSGHelpers option \<Rightarrow> PropsObject" where
  "merged_props sess ps helper =
     [''session'' \<mapsto> SessionValue sess]
       ++ nullish_or ps Map.empty
       ++ (case helper of
             None \<Rightarrow> Map.empty
           | Some h \<Rightarrow> [''trpcState'' \<mapsto> TrpcState (dehydrate h)])"

text \<open>Lines 59-74: what the handler returns for a run of the resolver.\<close>

definition interpret_result :: "CustomGetServerSidePropsContext \<Rightarrow> ResolverRun \<Rightarrow> GetPropsFnResult" where
  "interpret_result a run =
     (let helper = map_option (\<lambda>h. h\<lparr>queryCache := queryCache h @ prefetched run\<rparr>) (ssg a);
          page = \<lparr>props = Some (merged_props (session a) (Option.bind (result run) props) helper),
                  redirect = None, notFound = None\<rparr>
      in case result run of
           None \<Rightarrow> page
         | Some r \<Rightarrow>
             (if redirect r \<noteq> None
              then \<lparr>props = None, redirect = redirect r, notFound = None\<rparr>
              else if notFound r = Some True
              then \<lparr>props = None, redirect = None, notFound = notFound r\<rparr>
              else page))"

definition createServerSideProps ::
  "Collaborators \<Rightarrow> CreateServerSidePropsProps \<Rightarrow> GetServerSidePropsContext
     \<Rightarrow> error + GetPropsFnResult" where
  "createServerSideProps env opts context =
     (case resolver_argument env opts context of
        Inl e \<Rightarrow> Inl e
      | Inr a \<Rightarrow>
          (case resolver opts a of
             Inl e \<Rightarrow> Inl e
           | Inr run \<Rightarrow> Inr (interpret_result a run)))"

section \<open>The articles sitemap (getServerSideProps)\<close>

datatype BrowsingMode = All | SFW | NSFW
datatype MetricTimeframe = Day | Week | Month | Year | AllTime
datatype ArticleSort = MostBookmarks | MostReactions | MostComments | Newest

record GetArticlesInput =
  browsingMode :: BrowsingMode
  limit :: nat
  period :: MetricTimeframe
  sort :: ArticleSort
  periodMode :: string

text \<open>An article as the handler reads it; \<^verbatim>\<open>publishedAt\<close> is a date in milliseconds.\<close>

record Article =
  article_id :: int
  title :: string
  publishedAt :: "int option"

record ArticlesPage =
  items :: "Article list"

record ISitemapField =
  loc :: string
  lastmod :: string

text \<open>
  The functions the handler imports, and the clock it reads with \<^verbatim>\<open>new Date()\<close>.
  \<^verbatim>\<open>getServerSideSitemapLegacy\<close> belongs to the sitemap library; \<open>'r\<close> is what it returns.
\<close>

record 'r SitemapCollaborators =
  getArticles :: "GetArticlesInput \<Rightarrow> error + ArticlesPage"
  getBaseUrl :: string
  slugit :: "string \<Rightarrow> string"
  numberToString :: "int \<Rightarrow> string"
  toISOString :: "int \<Rightarrow> string"
  now :: int
  getServerSideSitemapLegacy :: "GetServerSidePropsContext \<Rightarrow> ISitemapField list \<Rightarrow> error + 'r"

definition articles_query :: GetArticlesInput where
  "articles_query =
     \<lparr>browsingMode = SFW, limit = 1000, period = AllTime, sort = MostBookmarks,
      periodMode = ''published''\<rparr>"

definition sitemap_field :: "'r SitemapCollaborators \<Rightarrow> Article \<Rightarrow> ISitemapField" where
  "sitemap_field env article =
     \<lparr>loc = getBaseUrl env @ ''/articles/'' @ numberToString env (article_id article) @ ''/''
              @ slugit env (title article),
      lastmod = nullish_or (map_option (toISOString env) (publishedAt article))
                  (toISOString env (now env))\<rparr>"

definition getServerSideProps ::
  "'r SitemapCollaborators \<Rightarrow> GetServerSidePropsContext \<Rightarrow> error + 'r" where
  "getServerSideProps env context =
     (let data = (case getArticles env articles_query of
                    Inl e \<Rightarrow> \<lparr>items = []\<rparr>
                  | Inr d \<Rightarrow> d);
          fields = map (sitemap_field env) (items data)
      in getServerSideSitemapLegacy env context fields)"

section \<open>Example inputs\<close>

text \<open>Reading one key of the props object that a run of the handler returned.\<close>

definition returned_prop :: "error + GetPropsFnResult \<Rightarrow> string \<Rightarrow> prop_value option" where
  "returned_prop out k =
     (case out of
        Inl e \<Rightarrow> None
      | Inr r \<Rightarrow> (case props r of None \<Rightarrow> None | Some m \<Rightarrow> m k))"

text \<open>Collaborators that succeed, a document request with a session attached, and a data request.\<close>

definition example_auth :: "GetServerSidePropsContext \<Rightarrow> error + Session option" where
  "example_auth context = Inr (Some \<lparr>user = Some ''carol'', expires = ''2026-12-31''\<rparr>)"

definition example_flags :: "string option \<Rightarrow> Request \<Rightarrow> error + FeatureAccess" where
  "example_flags u r = Inr [''articles'']"

definition example_collaborators :: Collaborators where
  "example_collaborators =
     \<lparr>getServerAuthSession = example_auth, getFeatureFlagsLazy = example_flags\<rparr>"

definition example_document_request :: GetServerSidePropsContext where
  "example_document_request =
     \<lparr>req = \<lparr>url = Some ''/models/1'',
             attachedSession = Some \<lparr>user = Some ''alice'', expires = ''2026-12-31''\<rparr>\<rparr>,
      resolvedUrl = ''/models/1''\<rparr>"

definition example_data_request :: GetServerSidePropsContext where
  "example_data_request =
     \<lparr>req = \<lparr>url = Some ''/_next/data/build/models/1.json'', attachedSession = None\<rparr>,
      resolvedUrl = ''/models/1''\<rparr>"

text \<open>Resolvers: one returning nothing, one a page, one a redirect, one not-found, and one
  whose props carry a \<^verbatim>\<open>session\<close> key of their own.\<close>

definition example_resolver_void :: "CustomGetServerSidePropsContext \<Rightarrow> error + ResolverRun" where
  "example_resolver_void a = Inr \<lparr>result = None, prefetched = [(''article.getById'', ''42'')]\<rparr>"

definition example_resolver_page :: "CustomGetServerSidePropsContext \<Rightarrow> error + ResolverRun" where
  "example_resolver_page a =
     Inr \<lparr>result = Some \<lparr>props = Some [''foo'' \<mapsto> PageData ''1''], redirect = None,
                          notFound = None\<rparr>,
          prefetched = []\<rparr>"

definition example_resolver_redirect :: "CustomGetServerSidePropsContext \<Rightarrow> error + ResolverRun" where
  "example_resolver_redirect a =
     Inr \<lparr>result = Some \<lparr>props = None,
                          redirect = Some \<lparr>destination = ''/login'', permanent = False\<rparr>,
                          notFound = None\<rparr>,
          prefetched = []\<rparr>"

definition example_resolver_notFound :: "CustomGetServerSidePropsContext \<Rightarrow> error + ResolverRun" where
  "example_resolver_notFound a =
     Inr \<lparr>result = Some \<lparr>props = None, redirect = None, notFound = Some True\<rparr>,
          prefetched = []\<rparr>"

definition example_resolver_own_session :: "CustomGetServerSidePropsContext \<Rightarrow> error + ResolverRun" where
  "example_resolver_own_session a =
     Inr \<lparr>result = Some \<lparr>props = Some [''session'' \<mapsto> SessionValue None], redirect = None,
                          notFound = None\<rparr>,
          prefetched = []\<rparr>"

text \<open>Sitemap collaborators whose articles query rejects; the sitemap writer reports the
  number of entries it was given.\<close>

definition example_getArticles_rejecting :: "GetArticlesInput \<Rightarrow> error + ArticlesPage" where
  "example_getArticles_rejecting q = Inl (Rejected ''connection refused'')"

definition example_slugit :: "string \<Rightarrow> string" where
  "example_slugit t = t"

definition example_numberToString :: "int \<Rightarrow> string" where
  "example_numberToString n = (if n = 1 then ''1'' else ''2'')"

definition example_toISOString :: "int \<Rightarrow> string" where
  "example_toISOString d = ''1970-01-01T00:00:00.000Z''"

definition example_sitemap :: "GetServerSidePropsContext \<Rightarrow> ISitemapField list \<Rightarrow> error + nat" where
  "example_sitemap context entries = Inr (length entries)"

definition example_sitemap_collaborators :: "nat SitemapCollaborators" where
  "example_sitemap_collaborators =
     \<lparr>getArticles = example_getArticles_rejecting, getBaseUrl = ''https://example.org'',
      slugit = example_slugit, numberToString = example_numberToString,
      toISOString = example_toISOString, now = 0,
      getServerSideSitemapLegacy = example_sitemap\<rparr>"

section \<open>Properties of the review widget\<close>

text \<open>
  Claim C1. For every rating \<open>r\<close>, when the viewer has no prior review (no review entity, or
  one whose id is falsy), \<^verbatim>\<open>onRatingChange(r)\<close> issues exactly one create call, whose payload
  holds the model version id, the model id, the rating \<open>r\<close> and \<^verbatim>\<open>recommended = (r >= 3)\<close>;
  nothing else changes, so no update call is issued.
\<close>

theorem rating_change_without_review_creates:
  assumes "resourceReview p = None \<or> map_option rr_id (resourceReview p) = Some 0"
  shows "handleRatingChange p r s =
           s\<lparr>calls := calls s @
              [CreateCall \<lparr>cp_modelVersionId = modelVersionId p, cp_modelId = modelId p,
                           cp_rating = r, cp_recommended = (3 \<le> r)\<rparr>]\<rparr>"
  using assms
  by (auto simp: handleRatingChange_def createReviewWithRating_def truthy_number_def)

text \<open>A first rating of 4 on a freshly mounted widget.\<close>

theorem rating_change_without_review_creates_witness:
  "resourceReview \<lparr>modelVersionId = 11, resourceReview = None, modelId = 5,
                   openedCommentBox = False\<rparr> = None
   \<and> calls (handleRatingChange
        \<lparr>modelVersionId = 11, resourceReview = None, modelId = 5, openedCommentBox = False\<rparr> 4
        (mount \<lparr>modelVersionId = 11, resourceReview = None, modelId = 5,
                openedCommentBox = False\<rparr>))
      = [CreateCall \<lparr>cp_modelVersionId = 11, cp_modelId = 5, cp_rating = 4,
                     cp_recommended = True\<rparr>]"
  using rating_change_without_review_creates
    [of "\<lparr>modelVersionId = 11, resourceReview = None, modelId = 5, openedCommentBox = False\<rparr>" 4
      "mount \<lparr>modelVersionId = 11, resourceReview = None, modelId = 5,
              openedCommentBox = False\<rparr>"]
  by (simp add: mount_def)

text \<open>
  Claim C3. For every rating \<open>r\<close>, when a prior review exists (an entity with a truthy id),
  \<^verbatim>\<open>onRatingChange(r)\<close> issues exactly one update call, for that review, with \<^verbatim>\<open>rating = r\<close>
  and \<^verbatim>\<open>details\<close> undefined; nothing else changes, so no create call is issued.
\<close>

theorem rating_change_with_review_updates:
  assumes "resourceReview p = Some rv" and "rr_id rv \<noteq> 0"
  shows "handleRatingChange p r s =
           s\<lparr>calls := calls s @
              [UpdateCall \<lparr>up_id = rr_id rv, up_rating = Some r, up_details = None\<rparr>]\<rparr>"
  using assms
  by (simp add: handleRatingChange_def updateReview_def truthy_number_def)

text \<open>Changing the rating of review 7 from 5 to 2.\<close>

theorem rating_change_with_review_updates_witness:
  "resourceReview
     \<lparr>modelVersionId = 11,
      resourceReview = Some \<lparr>rr_id = 7, rr_rating = Some 5, rr_details = Some ''good''\<rparr>,
      modelId = 5, openedCommentBox = False\<rparr>
     = Some \<lparr>rr_id = 7, rr_rating = Some 5, rr_details = Some ''good''\<rparr>
   \<and> rr_id \<lparr>rr_id = 7, rr_rating = Some 5, rr_details = Some ''good''\<rparr> \<noteq> 0
   \<and> calls (handleRatingChange
        \<lparr>modelVersionId = 11,
         resourceReview = Some \<lparr>rr_id = 7, rr_rating = Some 5, rr_details = Some ''good''\<rparr>,
         modelId = 5, openedCommentBox = False\<rparr> 2
        \<lparr>form = \<lparr>fieldValue = ''good'', defaultValue = ''good''\<rparr>, calls = [],
         editDetail = False, focusTimers = []\<rparr>)
      = [UpdateCall \<lparr>up_id = 7, up_rating = Some 2, up_details = None\<rparr>]"
  using rating_change_with_review_updates
    [of "\<lparr>modelVersionId = 11,
          resourceReview = Some \<lparr>rr_id = 7, rr_rating = Some 5, rr_details = Some ''good''\<rparr>,
          modelId = 5, openedCommentBox = False\<rparr>"
      "\<lparr>rr_id = 7, rr_rating = Some 5, rr_details = Some ''good''\<rparr>" 2
      "\<lparr>form = \<lparr>fieldValue = ''good'', defaultValue = ''good''\<rparr>, calls = [],
        editDetail = False, focusTimers = []\<rparr>"]
  by simp

text \<open>
  Claim C2, as amended. After a successful update call whose payload carried a non-empty
  \<^verbatim>\<open>details\<close> value, the form is reset to the value that was submitted, so the dirty flag is
  false, and the expanded flag of the comment editor is flipped exactly once: an expanded
  editor collapses. The call log is untouched. This holds for both variants of the widget.
\<close>

theorem update_success_resets_and_toggles:
  assumes "up_details request = Some d" and "d \<noteq> []"
  shows "form (updateReview_onSuccess seen request s) = \<lparr>fieldValue = d, defaultValue = d\<rparr>
       \<and> \<not> isDirty (form (updateReview_onSuccess seen request s))
       \<and> editDetail (updateReview_onSuccess seen request s) = (\<not> editDetail s)
       \<and> calls (updateReview_onSuccess seen request s) = calls s
       \<and> form (updateReviewV2_onSuccess request s2) = \<lparr>fieldValue = d, defaultValue = d\<rparr>
       \<and> \<not> isDirty (form (updateReviewV2_onSuccess request s2))
       \<and> opened (updateReviewV2_onSuccess request s2) = (\<not> opened s2)
       \<and> calls (updateReviewV2_onSuccess request s2) = calls s2"
  using assms
  by (simp add: updateReview_onSuccess_def updateReviewV2_onSuccess_def toggleEditDetail_def
      handleToggleOpen_def form_reset_def isDirty_def truthy_string_def nullish_or_def Let_def)

text \<open>The comment ``good'' edited to ``fine'' and saved from the expanded editor.\<close>

theorem update_success_resets_and_toggles_witness:
  "up_details \<lparr>up_id = 7, up_rating = None, up_details = Some ''fine''\<rparr> = Some ''fine''
   \<and> ''fine'' \<noteq> []
   \<and> updateReview_onSuccess True \<lparr>up_id = 7, up_rating = None, up_details = Some ''fine''\<rparr>
        \<lparr>form = \<lparr>fieldValue = ''fine'', defaultValue = ''good''\<rparr>, calls = [],
         editDetail = True, focusTimers = []\<rparr>
      = \<lparr>form = \<lparr>fieldValue = ''fine'', defaultValue = ''fine''\<rparr>, calls = [],
         editDetail = False, focusTimers = []\<rparr>
   \<and> updateReviewV2_onSuccess \<lparr>up_id = 7, up_rating = None, up_details = Some ''fine''\<rparr>
        \<lparr>form = \<lparr>fieldValue = ''fine'', defaultValue = ''good''\<rparr>, calls = [], opened = True\<rparr>
      = \<lparr>form = \<lparr>fieldValue = ''fine'', defaultValue = ''fine''\<rparr>, calls = [], opened = False\<rparr>"
  using update_success_resets_and_toggles
    [of "\<lparr>up_id = 7, up_rating = None, up_details = Some ''fine''\<rparr>" "''fine''" True
      "\<lparr>form = \<lparr>fieldValue = ''fine'', defaultValue = ''good''\<rparr>, calls = [],
        editDetail = True, focusTimers = []\<rparr>"
      "\<lparr>form = \<lparr>fieldValue = ''fine'', defaultValue = ''good''\<rparr>, calls = [], opened = True\<rparr>"]
  by (simp add: updateReview_onSuccess_def updateReviewV2_onSuccess_def toggleEditDetail_def
      handleToggleOpen_def form_reset_def truthy_string_def nullish_or_def Let_def)

text \<open>
  The claim as first stated fails when the submitted details are the empty string. The
  comment ``good'' is cleared and submitted from the expanded editor: the update call carries
  \<^verbatim>\<open>details = ''\<close>, and after its success the form is still dirty and the editor is still
  expanded, in both variants.
\<close>

theorem update_success_empty_details_counterexample:
  "calls (form_handleSubmit
       \<lparr>modelVersionId = 11,
        resourceReview = Some \<lparr>rr_id = 7, rr_rating = Some 5, rr_details = Some ''good''\<rparr>,
        modelId = 5, openedCommentBox = True\<rparr>
       \<lparr>form = \<lparr>fieldValue = '''', defaultValue = ''good''\<rparr>, calls = [],
        editDetail = True, focusTimers = []\<rparr>)
     = [UpdateCall \<lparr>up_id = 7, up_rating = None, up_details = Some ''''\<rparr>]
   \<and> isDirty (form (updateReview_onSuccess True
         \<lparr>up_id = 7, up_rating = None, up_details = Some ''''\<rparr>
         \<lparr>form = \<lparr>fieldValue = '''', defaultValue = ''good''\<rparr>,
          calls = [UpdateCall \<lparr>up_id = 7, up_rating = None, up_details = Some ''''\<rparr>],
          editDetail = True, focusTimers = []\<rparr>))
   \<and> editDetail (updateReview_onSuccess True
         \<lparr>up_id = 7, up_rating = None, up_details = Some ''''\<rparr>
         \<lparr>form = \<lparr>fieldValue = '''', defaultValue = ''good''\<rparr>,
          calls = [UpdateCall \<lparr>up_id = 7, up_rating = None, up_details = Some ''''\<rparr>],
          editDetail = True, focusTimers = []\<rparr>)
   \<and> isDirty (form (updateReviewV2_onSuccess
         \<lparr>up_id = 7, up_rating = None, up_details = Some ''''\<rparr>
         \<lparr>form = \<lparr>fieldValue = '''', defaultValue = ''good''\<rparr>,
          calls = [UpdateCall \<lparr>up_id = 7, up_rating = None, up_details = Some ''''\<rparr>],
          opened = True\<rparr>))
   \<and> opened (updateReviewV2_onSuccess
         \<lparr>up_id = 7, up_rating = None, up_details = Some ''''\<rparr>
         \<lparr>form = \<lparr>fieldValue = '''', defaultValue = ''good''\<rparr>,
          calls = [UpdateCall \<lparr>up_id = 7, up_rating = None, up_details = Some ''''\<rparr>],
          opened = True\<rparr>)"
  by (simp add: updateReview_onSuccess_def updateReviewV2_onSuccess_def isDirty_def
      truthy_string_def form_handleSubmit_def handleSubmit_def updateReview_def)

text \<open>
  Claim C4. For every form state: when the dirty flag is false, \<^verbatim>\<open>save()\<close> changes nothing;
  when it is true, \<^verbatim>\<open>save()\<close> is one run of the submit path of the form, that is one call of
  \<^verbatim>\<open>handleSubmit\<close> with the current field value, which issues one update call carrying that
  value when the review exists. This holds for both variants of the widget.
\<close>

theorem save_submits_iff_dirty:
  "(\<not> isDirty (form s) \<longrightarrow> save p s = s)
   \<and> (isDirty (form s) \<longrightarrow>
        save p s = form_handleSubmit p s
        \<and> save p s = handleSubmit p (Some (fieldValue (form s))) s
        \<and> calls (save p s) =
            (case resourceReview p of
               None \<Rightarrow> calls s
             | Some rv \<Rightarrow> calls s @
                 [UpdateCall \<lparr>up_id = rr_id rv, up_rating = None,
                              up_details = Some (fieldValue (form s))\<rparr>]))
   \<and> (\<not> isDirty (form s2) \<longrightarrow> saveV2 p2 s2 = s2)
   \<and> (isDirty (form s2) \<longrightarrow>
        saveV2 p2 s2 = form_handleSubmitV2 p2 s2
        \<and> saveV2 p2 s2 = handleSubmitV2 p2 (Some (fieldValue (form s2))) s2
        \<and> calls (saveV2 p2 s2) =
            (case userReview p2 of
               None \<Rightarrow> calls s2
             | Some rv \<Rightarrow> calls s2 @
                 [UpdateCall \<lparr>up_id = rr_id rv, up_rating = None,
                              up_details = Some (fieldValue (form s2))\<rparr>]))"
  by (simp add: save_def saveV2_def form_handleSubmit_def form_handleSubmitV2_def
      handleSubmit_def handleSubmitV2_def updateReview_def updateReviewV2_def
      split: option.split)

text \<open>An untouched form and a form edited to ``fine'', in both variants.\<close>

theorem save_submits_iff_dirty_witness:
  "\<not> isDirty (form \<lparr>form = \<lparr>fieldValue = ''good'', defaultValue = ''good''\<rparr>, calls = [],
                     editDetail = True, focusTimers = []\<rparr>)
   \<and> save \<lparr>modelVersionId = 11,
            resourceReview = Some \<lparr>rr_id = 7, rr_rating = Some 5, rr_details = Some ''good''\<rparr>,
            modelId = 5, openedCommentBox = True\<rparr>
        \<lparr>form = \<lparr>fieldValue = ''good'', defaultValue = ''good''\<rparr>, calls = [],
         editDetail = True, focusTimers = []\<rparr>
      = \<lparr>form = \<lparr>fieldValue = ''good'', defaultValue = ''good''\<rparr>, calls = [],
         editDetail = True, focusTimers = []\<rparr>
   \<and> isDirty (form \<lparr>form = \<lparr>fieldValue = ''fine'', defaultValue = ''good''\<rparr>, calls = [],
                     editDetail = True, focusTimers = []\<rparr>)
   \<and> calls (save \<lparr>modelVersionId = 11,
            resourceReview = Some \<lparr>rr_id = 7, rr_rating = Some 5, rr_details = Some ''good''\<rparr>,
            modelId = 5, openedCommentBox = True\<rparr>
        \<lparr>form = \<lparr>fieldValue = ''fine'', defaultValue = ''good''\<rparr>, calls = [],
         editDetail = True, focusTimers = []\<rparr>)
      = [UpdateCall \<lparr>up_id = 7, up_rating = None, up_details = Some ''fine''\<rparr>]
   \<and> saveV2 \<lparr>modelVersionId = 11,
              userReview = Some \<lparr>rr_id = 7, rr_rating = Some 5, rr_details = Some ''good''\<rparr>\<rparr>
        \<lparr>form = \<lparr>fieldValue = ''good'', defaultValue = ''good''\<rparr>, calls = [], opened = True\<rparr>
      = \<lparr>form = \<lparr>fieldValue = ''good'', defaultValue = ''good''\<rparr>, calls = [], opened = True\<rparr>
   \<and> calls (saveV2 \<lparr>modelVersionId = 11,
              userReview = Some \<lparr>rr_id = 7, rr_rating = Some 5, rr_details = Some ''good''\<rparr>\<rparr>
        \<lparr>form = \<lparr>fieldValue = ''fine'', defaultValue = ''good''\<rparr>, calls = [], opened = True\<rparr>)
      = [UpdateCall \<lparr>up_id = 7, up_rating = None, up_details = Some ''fine''\<rparr>]"
  using save_submits_iff_dirty
    [of "\<lparr>form = \<lparr>fieldValue = ''good'', defaultValue = ''good''\<rparr>, calls = [],
          editDetail = True, focusTimers = []\<rparr>"
      "\<lparr>modelVersionId = 11,
        resourceReview = Some \<lparr>rr_id = 7, rr_rating = Some 5, rr_details = Some ''good''\<rparr>,
        modelId = 5, openedCommentBox = True\<rparr>"
      "\<lparr>form = \<lparr>fieldValue = ''fine'', defaultValue = ''good''\<rparr>, calls = [], opened = True\<rparr>"
      "\<lparr>modelVersionId = 11,
        userReview = Some \<lparr>rr_id = 7, rr_rating = Some 5, rr_details = Some ''good''\<rparr>\<rparr>"]
    save_submits_iff_dirty
    [of "\<lparr>form = \<lparr>fieldValue = ''fine'', defaultValue = ''good''\<rparr>, calls = [],
          editDetail = True, focusTimers = []\<rparr>"
      "\<lparr>modelVersionId = 11,
        resourceReview = Some \<lparr>rr_id = 7, rr_rating = Some 5, rr_details = Some ''good''\<rparr>,
        modelId = 5, openedCommentBox = True\<rparr>"
      "\<lparr>form = \<lparr>fieldValue = ''good'', defaultValue = ''good''\<rparr>, calls = [], opened = True\<rparr>"
      "\<lparr>modelVersionId = 11,
        userReview = Some \<lparr>rr_id = 7, rr_rating = Some 5, rr_details = Some ''good''\<rparr>\<rparr>"]
  by (simp add: isDirty_def save_def saveV2_def form_handleSubmit_def form_handleSubmitV2_def
      handleSubmit_def handleSubmitV2_def updateReview_def updateReviewV2_def)

text \<open>
  Claim C5. For every prior state of the form, dirty or not, when the details of the entity
  change between two renders (a change between no entity and an entity without comment
  included), the form is reset to the new details of the entity, or to the empty string when
  the entity or its details are absent; the local edit is discarded and the form is not dirty.
  This holds for both variants of the widget.
\<close>

theorem resync_server_wins:
  "(map_option rr_details (resourceReview old) \<noteq> map_option rr_details (resourceReview new) \<longrightarrow>
      form (rerender old new s) =
        \<lparr>fieldValue = nullish_or (Option.bind (resourceReview new) rr_details) [],
         defaultValue = nullish_or (Option.bind (resourceReview new) rr_details) []\<rparr>
      \<and> \<not> isDirty (form (rerender old new s)))
   \<and> (map_option rr_details (userReview old2) \<noteq> map_option rr_details (userReview new2) \<longrightarrow>
      form (rerenderV2 old2 new2 s2) =
        \<lparr>fieldValue = nullish_or (Option.bind (userReview new2) rr_details) [],
         defaultValue = nullish_or (Option.bind (userReview new2) rr_details) []\<rparr>
      \<and> \<not> isDirty (form (rerenderV2 old2 new2 s2)))"
  by (simp add: rerender_def rerenderV2_def resync_def resyncV2_def form_reset_def isDirty_def)

text \<open>A fresh fetch brings the details ``server'' while the form holds the unsaved edit
  ``mine''; in the second variant a review without comment is replaced by no review, so the
  dependency goes from null to undefined.\<close>

theorem resync_server_wins_witness:
  "map_option rr_details (resourceReview
       \<lparr>modelVersionId = 11,
        resourceReview = Some \<lparr>rr_id = 7, rr_rating = Some 5, rr_details = Some ''good''\<rparr>,
        modelId = 5, openedCommentBox = True\<rparr>)
     \<noteq> map_option rr_details (resourceReview
       \<lparr>modelVersionId = 11,
        resourceReview = Some \<lparr>rr_id = 7, rr_rating = Some 5, rr_details = Some ''server''\<rparr>,
        modelId = 5, openedCommentBox = True\<rparr>)
   \<and> form (rerender
       \<lparr>modelVersionId = 11,
        resourceReview = Some \<lparr>rr_id = 7, rr_rating = Some 5, rr_details = Some ''good''\<rparr>,
        modelId = 5, openedCommentBox = True\<rparr>
       \<lparr>modelVersionId = 11,
        resourceReview = Some \<lparr>rr_id = 7, rr_rating = Some 5, rr_details = Some ''server''\<rparr>,
        modelId = 5, openedCommentBox = True\<rparr>
       \<lparr>form = \<lparr>fieldValue = ''mine'', defaultValue = ''good''\<rparr>, calls = [],
        editDetail = True, focusTimers = []\<rparr>)
     = \<lparr>fieldValue = ''server'', defaultValue = ''server''\<rparr>
   \<and> map_option rr_details (userReview
       \<lparr>modelVersionId = 11,
        userReview = Some \<lparr>rr_id = 7, rr_rating = Some 5, rr_details = None\<rparr>\<rparr>)
     \<noteq> map_option rr_details (userReview
       \<lparr>modelVersionId = 11, userReview = None\<rparr>)
   \<and> form (rerenderV2
       \<lparr>modelVersionId = 11,
        userReview = Some \<lparr>rr_id = 7, rr_rating = Some 5, rr_details = None\<rparr>\<rparr>
       \<lparr>modelVersionId = 11, userReview = None\<rparr>
       \<lparr>form = \<lparr>fieldValue = ''mine'', defaultValue = ''''\<rparr>, calls = [], opened = True\<rparr>)
     = \<lparr>fieldValue = '''', defaultValue = ''''\<rparr>"
  using resync_server_wins
    [of "\<lparr>modelVersionId = 11,
        resourceReview = Some \<lparr>rr_id = 7, rr_rating = Some 5, rr_details = Some ''good''\<rparr>,
        modelId = 5, openedCommentBox = True\<rparr>"
      "\<lparr>modelVersionId = 11,
        resourceReview = Some \<lparr>rr_id = 7, rr_rating = Some 5, rr_details = Some ''server''\<rparr>,
        modelId = 5, openedCommentBox = True\<rparr>"
      "\<lparr>form = \<lparr>fieldValue = ''mine'', defaultValue = ''good''\<rparr>, calls = [],
        editDetail = True, focusTimers = []\<rparr>"
      "\<lparr>modelVersionId = 11,
        userReview = Some \<lparr>rr_id = 7, rr_rating = Some 5, rr_details = None\<rparr>\<rparr>"
      "\<lparr>modelVersionId = 11, userReview = None\<rparr>"
      "\<lparr>form = \<lparr>fieldValue = ''mine'', defaultValue = ''''\<rparr>, calls = [], opened = True\<rparr>"]
  by (simp add: nullish_or_def)

section \<open>Properties of the server-side props handler\<close>

subsection \<open>What the handler passes on\<close>

lemma resolver_argument_isClient:
  "resolver_argument env opts context = Inr a \<Longrightarrow> isClient a = request_isClient context"
  by (auto simp: resolver_argument_def Let_def split: sum.splits)

lemma resolver_argument_session:
  "resolver_argument env opts context = Inr a \<Longrightarrow>
   resolve_session env opts context = Inr (session a)"
  by (auto simp: resolver_argument_def Let_def split: sum.splits)

lemma resolver_argument_ssg:
  "resolver_argument env opts context = Inr a \<Longrightarrow>
   ssg a = build_ssg opts (isClient a) context (session a) (features a)"
  by (auto simp: resolver_argument_def Let_def split: sum.splits)

lemma createServerSideProps_run:
  "resolver_argument env opts context = Inr a \<Longrightarrow> resolver opts a = Inr run \<Longrightarrow>
   createServerSideProps env opts context = Inr (interpret_result a run)"
  by (simp add: createServerSideProps_def)

lemma merged_props_session:
  "Option.bind ps (\<lambda>m. m ''session'') = None \<Longrightarrow>
   merged_props sess ps helper ''session'' = Some (SessionValue sess)"
  by (cases ps; cases helper) (simp_all add: merged_props_def nullish_or_def map_add_def)

lemma merged_props_trpcState:
  "merged_props sess ps helper ''trpcState'' =
     (case helper of
        None \<Rightarrow> Option.bind ps (\<lambda>m. m ''trpcState'')
      | Some h \<Rightarrow> Some (TrpcState (dehydrate h)))"
  by (cases ps; cases helper)
     (simp_all add: merged_props_def nullish_or_def map_add_def split: option.splits)

subsection \<open>The prefetch context\<close>

text \<open>
  Claim C6, as amended. For every request that reaches the resolver: the request counts as a
  soft navigation exactly when its path starts with \<^verbatim>\<open>/_next/data\<close>; when \<^verbatim>\<open>prefetch\<close> is
  \<^verbatim>\<open>'once'\<close> (given or by default) no prefetch context is constructed for a soft navigation;
  when \<^verbatim>\<open>useSSG\<close> is set and \<^verbatim>\<open>prefetch\<close> is \<^verbatim>\<open>'always'\<close> the prefetch context is constructed,
  soft navigation or not.
\<close>

theorem prefetch_context_rule:
  assumes "resolver_argument env opts context = Inr a"
  shows "isClient a = (case url (req context) of
                         None \<Rightarrow> False
                       | Some u \<Rightarrow> startsWith u ''/_next/data'')
       \<and> (prefetch opts \<noteq> Some always \<and> isClient a \<longrightarrow> ssg a = None)
       \<and> (useSSG opts = Some True \<and> prefetch opts = Some always \<longrightarrow> ssg a \<noteq> None)"
proof -
  have "isClient a = request_isClient context"
    using assms by (rule resolver_argument_isClient)
  moreover have "ssg a = build_ssg opts (isClient a) context (session a) (features a)"
    using assms by (rule resolver_argument_ssg)
  ultimately show ?thesis
    by (cases "prefetch opts"; cases "url (req context)")
       (auto simp: build_ssg_def request_isClient_def nullish_or_def)
qed

text \<open>A data request handled with \<^verbatim>\<open>useSSG\<close> set: no context under \<^verbatim>\<open>'once'\<close>, a context
  under \<^verbatim>\<open>'always'\<close>.\<close>

theorem prefetch_context_rule_witness:
  "resolver_argument example_collaborators
     \<lparr>resolver = example_resolver_void, useSSG = Some True, useSession = None,
      prefetch = Some once\<rparr>
     example_data_request
   = Inr \<lparr>ctx = example_data_request, isClient = True, ssg = None, session = None,
          features = [''articles'']\<rparr>
   \<and> resolver_argument example_collaborators
     \<lparr>resolver = example_resolver_void, useSSG = Some True, useSession = None,
      prefetch = Some always\<rparr>
     example_data_request
   = Inr \<lparr>ctx = example_data_request, isClient = True,
          ssg = Some \<lparr>ssg_user = None, ssg_acceptableOrigin = True,
                      ssg_features = [''articles''], queryCache = []\<rparr>,
          session = None, features = [''articles'']\<rparr>"
proof -
  have once_run: "resolver_argument example_collaborators
     \<lparr>resolver = example_resolver_void, useSSG = Some True, useSession = None,
      prefetch = Some once\<rparr>
     example_data_request
   = Inr \<lparr>ctx = example_data_request, isClient = True, ssg = None, session = None,
          features = [''articles'']\<rparr>"
    by (simp add: resolver_argument_def resolve_session_def build_ssg_def request_isClient_def startsWith_def
      nullish_or_def getServerProxySSGHelpers_def Let_def
      example_collaborators_def example_auth_def example_flags_def example_data_request_def)
  have always_run: "resolver_argument example_collaborators
     \<lparr>resolver = example_resolver_void, useSSG = Some True, useSession = None,
      prefetch = Some always\<rparr>
     example_data_request
   = Inr \<lparr>ctx = example_data_request, isClient = True,
          ssg = Some \<lparr>ssg_user = None, ssg_acceptableOrigin = True,
                      ssg_features = [''articles''], queryCache = []\<rparr>,
          session = None, features = [''articles'']\<rparr>"
    by (simp add: resolver_argument_def resolve_session_def build_ssg_def request_isClient_def startsWith_def
      nullish_or_def getServerProxySSGHelpers_def Let_def
      example_collaborators_def example_auth_def example_flags_def example_data_request_def)
  show ?thesis
    using prefetch_context_rule [OF once_run] prefetch_context_rule [OF always_run]
      once_run always_run
    by simp
qed

text \<open>
  The claim as first stated fails when \<^verbatim>\<open>useSSG\<close> is not set: with \<^verbatim>\<open>prefetch: 'always'\<close> the
  handler still constructs no prefetch context.
\<close>

theorem prefetch_always_without_useSSG_counterexample:
  "resolver_argument example_collaborators
     \<lparr>resolver = example_resolver_void, useSSG = None, useSession = None,
      prefetch = Some always\<rparr>
     example_data_request
   = Inr \<lparr>ctx = example_data_request, isClient = True, ssg = None, session = None,
          features = [''articles'']\<rparr>"
  by (simp add: resolver_argument_def resolve_session_def build_ssg_def request_isClient_def startsWith_def
      nullish_or_def getServerProxySSGHelpers_def Let_def
      example_collaborators_def example_auth_def example_flags_def example_data_request_def)

subsection \<open>Terminal outcomes\<close>

text \<open>
  Claim C7. Whenever the resolver returns a redirect outcome, the handler returns exactly
  \<^verbatim>\<open>{ redirect }\<close>: no props object, hence no session and no prefetch snapshot. Whenever the
  resolver returns a not-found outcome (\<^verbatim>\<open>notFound: true\<close> and no redirect), the handler
  returns exactly \<^verbatim>\<open>{ notFound }\<close>.
\<close>

theorem terminal_outcome_replaces_props:
  assumes "resolver_argument env opts context = Inr a"
    and "resolver opts a = Inr run"
    and "result run = Some r"
  shows "(redirect r = Some rd \<longrightarrow>
            createServerSideProps env opts context =
              Inr \<lparr>props = None, redirect = Some rd, notFound = None\<rparr>)
       \<and> (redirect r = None \<and> notFound r = Some True \<longrightarrow>
            createServerSideProps env opts context =
              Inr \<lparr>props = None, redirect = None, notFound = Some True\<rparr>)"
  using assms by (simp add: createServerSideProps_def interpret_result_def Let_def)

text \<open>A document request with a prefetch context built, answered by a redirect to the login
  page and by not-found.\<close>

theorem terminal_outcome_replaces_props_witness:
  "resolver_argument example_collaborators
     \<lparr>resolver = example_resolver_redirect, useSSG = Some True, useSession = None,
      prefetch = None\<rparr>
     example_document_request
   = Inr \<lparr>ctx = example_document_request, isClient = False,
          ssg = Some \<lparr>ssg_user = Some ''alice'', ssg_acceptableOrigin = True,
                      ssg_features = [''articles''], queryCache = []\<rparr>,
          session = Some \<lparr>user = Some ''alice'', expires = ''2026-12-31''\<rparr>,
          features = [''articles'']\<rparr>
   \<and> createServerSideProps example_collaborators
     \<lparr>resolver = example_resolver_redirect, useSSG = Some True, useSession = None,
      prefetch = None\<rparr>
     example_document_request
   = Inr \<lparr>props = None, redirect = Some \<lparr>destination = ''/login'', permanent = False\<rparr>,
          notFound = None\<rparr>
   \<and> createServerSideProps example_collaborators
     \<lparr>resolver = example_resolver_notFound, useSSG = Some True, useSession = None,
      prefetch = None\<rparr>
     example_document_request
   = Inr \<lparr>props = None, redirect = None, notFound = Some True\<rparr>"
proof -
  let ?a = "\<lparr>ctx = example_document_request, isClient = False,
          ssg = Some \<lparr>ssg_user = Some ''alice'', ssg_acceptableOrigin = True,
                      ssg_features = [''articles''], queryCache = []\<rparr>,
          session = Some \<lparr>user = Some ''alice'', expires = ''2026-12-31''\<rparr>,
          features = [''articles'']\<rparr>"
  have arg1: "resolver_argument example_collaborators
     \<lparr>resolver = example_resolver_redirect, useSSG = Some True, useSession = None,
      prefetch = None\<rparr>
     example_document_request = Inr ?a"
    by (simp add: resolver_argument_def resolve_session_def build_ssg_def request_isClient_def startsWith_def
      nullish_or_def getServerProxySSGHelpers_def Let_def
      example_collaborators_def example_auth_def example_flags_def example_document_request_def)
  have arg2: "resolver_argument example_collaborators
     \<lparr>resolver = example_resolver_notFound, useSSG = Some True, useSession = None,
      prefetch = None\<rparr>
     example_document_request = Inr ?a"
    by (simp add: resolver_argument_def resolve_session_def build_ssg_def request_isClient_def startsWith_def
      nullish_or_def getServerProxySSGHelpers_def Let_def
      example_collaborators_def example_auth_def example_flags_def example_document_request_def)
  have run1: "resolver
     \<lparr>resolver = example_resolver_redirect, useSSG = Some True, useSession = None,
      prefetch = None\<rparr> ?a
    = Inr \<lparr>result = Some \<lparr>props = None,
                          redirect = Some \<lparr>destination = ''/login'', permanent = False\<rparr>,
                          notFound = None\<rparr>,
          prefetched = []\<rparr>"
    by (simp add: example_resolver_redirect_def)
  have run2: "resolver
     \<lparr>resolver = example_resolver_notFound, useSSG = Some True, useSession = None,
      prefetch = None\<rparr> ?a
    = Inr \<lparr>result = Some \<lparr>props = None, redirect = None, notFound = Some True\<rparr>,
          prefetched = []\<rparr>"
    by (simp add: example_resolver_notFound_def)
  show ?thesis
    using terminal_outcome_replaces_props
        [OF arg1 run1, of _ "\<lparr>destination = ''/login'', permanent = False\<rparr>"]
      terminal_outcome_replaces_props [OF arg2 run2] arg1
    by simp
qed

subsection \<open>The session\<close>

text \<open>
  Claim C8, as amended. For every request that reaches the resolver, the session the handler
  uses is the session attached to the request when there is one; otherwise the result of the
  session resolver when \<^verbatim>\<open>useSession\<close> is set; otherwise null. Whenever the handler returns a
  props object, that object holds this session under the key \<^verbatim>\<open>session\<close>, unless the
  resolver's own props define a \<^verbatim>\<open>session\<close> key.
\<close>

theorem session_resolution_and_props:
  assumes "resolver_argument env opts context = Inr a"
  shows "Inr (session a) =
           (case attachedSession (req context) of
              Some s \<Rightarrow> Inr (Some s)
            | None \<Rightarrow> if useSession opts = Some True
                      then getServerAuthSession env context else Inr None)
       \<and> (resolver opts a = Inr run
            \<and> Option.bind (Option.bind (result run) props) (\<lambda>ps. ps ''session'') = None
            \<and> createServerSideProps env opts context = Inr out
            \<and> props out = Some m
          \<longrightarrow> m ''session'' = Some (SessionValue (session a)))"
proof (intro conjI impI)
  have "resolve_session env opts context = Inr (session a)"
    using assms by (rule resolver_argument_session)
  then show "Inr (session a) =
           (case attachedSession (req context) of
              Some s \<Rightarrow> Inr (Some s)
            | None \<Rightarrow> if useSession opts = Some True
                      then getServerAuthSession env context else Inr None)"
    by (cases "useSession opts")
       (auto simp: resolve_session_def nullish_or_def split: option.splits)
next
  assume h: "resolver opts a = Inr run
            \<and> Option.bind (Option.bind (result run) props) (\<lambda>ps. ps ''session'') = None
            \<and> createServerSideProps env opts context = Inr out
            \<and> props out = Some m"
  then have out: "out = interpret_result a run"
    using createServerSideProps_run [OF assms, of run] by simp
  from h have own: "Option.bind (Option.bind (result run) props) (\<lambda>ps. ps ''session'') = None"
    by simp
  from h out have "props (interpret_result a run) = Some m" by simp
  then have "m = merged_props (session a) (Option.bind (result run) props)
                   (map_option (\<lambda>h. h\<lparr>queryCache := queryCache h @ prefetched run\<rparr>) (ssg a))"
    by (auto simp: interpret_result_def Let_def split: option.splits if_splits)
  then show "m ''session'' = Some (SessionValue (session a))"
    using merged_props_session [OF own] by simp
qed

text \<open>A data request without an attached session, \<^verbatim>\<open>useSession\<close> set, and a resolver that
  returns the props \<^verbatim>\<open>{ foo: 1 }\<close>: the session resolver's session is used and returned.\<close>

theorem session_resolution_and_props_witness:
  "resolver_argument example_collaborators
     \<lparr>resolver = example_resolver_page, useSSG = Some True, useSession = Some True,
      prefetch = None\<rparr>
     example_data_request
   = Inr \<lparr>ctx = example_data_request, isClient = True, ssg = None,
          session = Some \<lparr>user = Some ''carol'', expires = ''2026-12-31''\<rparr>,
          features = [''articles'']\<rparr>
   \<and> getServerAuthSession example_collaborators example_data_request
     = Inr (Some \<lparr>user = Some ''carol'', expires = ''2026-12-31''\<rparr>)
   \<and> createServerSideProps example_collaborators
     \<lparr>resolver = example_resolver_page, useSSG = Some True, useSession = Some True,
      prefetch = None\<rparr>
     example_data_request
   = Inr \<lparr>props = Some [''session'' \<mapsto>
                         SessionValue (Some \<lparr>user = Some ''carol'', expires = ''2026-12-31''\<rparr>),
                       ''foo'' \<mapsto> PageData ''1''],
          redirect = None, notFound = None\<rparr>
   \<and> returned_prop
       (createServerSideProps example_collaborators
          \<lparr>resolver = example_resolver_page, useSSG = Some True, useSession = Some True,
      prefetch = None\<rparr>
          example_data_request) ''session''
     = Some (SessionValue (Some \<lparr>user = Some ''carol'', expires = ''2026-12-31''\<rparr>))"
proof -
  let ?opts = "\<lparr>resolver = example_resolver_page, useSSG = Some True, useSession = Some True,
      prefetch = None\<rparr>"
  let ?a = "\<lparr>ctx = example_data_request, isClient = True, ssg = None,
          session = Some \<lparr>user = Some ''carol'', expires = ''2026-12-31''\<rparr>,
          features = [''articles'']\<rparr>"
  let ?m = "[''session'' \<mapsto>
               SessionValue (Some \<lparr>user = Some ''carol'', expires = ''2026-12-31''\<rparr>),
             ''foo'' \<mapsto> PageData ''1'']"
  have arg: "resolver_argument example_collaborators ?opts example_data_request = Inr ?a"
    by (simp add: resolver_argument_def resolve_session_def build_ssg_def request_isClient_def startsWith_def
      nullish_or_def getServerProxySSGHelpers_def Let_def
      example_collaborators_def example_auth_def example_flags_def example_data_request_def)
  have out: "createServerSideProps example_collaborators ?opts example_data_request
    = Inr \<lparr>props = Some ?m, redirect = None, notFound = None\<rparr>"
    by (simp add: createServerSideProps_def interpret_result_def merged_props_def dehydrate_def
      resolver_argument_def resolve_session_def build_ssg_def request_isClient_def startsWith_def
      nullish_or_def getServerProxySSGHelpers_def Let_def
      example_collaborators_def example_auth_def example_flags_def example_data_request_def example_resolver_page_def)
  have run: "resolver ?opts ?a =
      Inr \<lparr>result = Some \<lparr>props = Some [''foo'' \<mapsto> PageData ''1''], redirect = None,
                          notFound = None\<rparr>,
          prefetched = []\<rparr>"
    by (simp add: example_resolver_page_def)
  have "?m ''session'' =
      Some (SessionValue (Some \<lparr>user = Some ''carol'', expires = ''2026-12-31''\<rparr>))"
    using session_resolution_and_props
      [OF arg, of _ "\<lparr>props = Some ?m, redirect = None, notFound = None\<rparr>" ?m] run out
    by simp
  then show ?thesis
    using arg out by (simp add: returned_prop_def example_collaborators_def example_auth_def)
qed

text \<open>
  The claim as first stated fails when the resolver's props have a \<^verbatim>\<open>session\<close> key: the
  handler uses the session attached to the request, and the props object it returns holds the
  resolver's value instead.
\<close>

theorem resolver_session_key_counterexample:
  "resolver_argument example_collaborators
     \<lparr>resolver = example_resolver_own_session, useSSG = None, useSession = None,
      prefetch = None\<rparr>
     example_document_request
   = Inr \<lparr>ctx = example_document_request, isClient = False, ssg = None,
          session = Some \<lparr>user = Some ''alice'', expires = ''2026-12-31''\<rparr>,
          features = [''articles'']\<rparr>
   \<and> returned_prop
       (createServerSideProps example_collaborators
          \<lparr>resolver = example_resolver_own_session, useSSG = None, useSession = None,
      prefetch = None\<rparr>
          example_document_request) ''session''
     = Some (SessionValue None)"
  by (simp add: createServerSideProps_def interpret_result_def merged_props_def dehydrate_def
      resolver_argument_def resolve_session_def build_ssg_def request_isClient_def startsWith_def
      nullish_or_def getServerProxySSGHelpers_def Let_def
      example_collaborators_def example_auth_def example_flags_def example_document_request_def example_resolver_own_session_def returned_prop_def)

subsection \<open>A resolver that returns nothing\<close>

text \<open>
  Claim C9. When the resolver returns no result at all, the handler still succeeds: it
  returns a props object that holds the session under \<^verbatim>\<open>session\<close> and, exactly when a
  prefetch context was built, the serialised snapshot of that context under \<^verbatim>\<open>trpcState\<close>,
  and nothing else.
\<close>

theorem void_resolver_still_returns_props:
  assumes "resolver_argument env opts context = Inr a"
    and "resolver opts a = Inr run"
    and "result run = None"
  shows "\<exists>m. createServerSideProps env opts context =
               Inr \<lparr>props = Some m, redirect = None, notFound = None\<rparr>
           \<and> m ''session'' = Some (SessionValue (session a))
           \<and> m ''trpcState'' =
               map_option (\<lambda>h. TrpcState (queryCache h @ prefetched run)) (ssg a)
           \<and> dom m = {''session''} \<union> (if ssg a = None then {} else {''trpcState''})"
proof -
  let ?helper = "map_option (\<lambda>h. h\<lparr>queryCache := queryCache h @ prefetched run\<rparr>) (ssg a)"
  let ?m = "merged_props (session a) None ?helper"
  have "createServerSideProps env opts context =
          Inr \<lparr>props = Some ?m, redirect = None, notFound = None\<rparr>"
    using assms by (simp add: createServerSideProps_def interpret_result_def Let_def)
  moreover have "?m ''session'' = Some (SessionValue (session a))"
    by (rule merged_props_session) simp
  moreover have "?m ''trpcState'' =
      map_option (\<lambda>h. TrpcState (queryCache h @ prefetched run)) (ssg a)"
    by (cases "ssg a") (simp_all add: merged_props_trpcState dehydrate_def)
  moreover have "dom ?m = {''session''} \<union> (if ssg a = None then {} else {''trpcState''})"
    by (cases "ssg a") (auto simp: merged_props_def nullish_or_def)
  ultimately show ?thesis by blast
qed

text \<open>A document request with \<^verbatim>\<open>useSSG\<close> set and a resolver that only prefetches one query.\<close>

theorem void_resolver_still_returns_props_witness:
  "resolver_argument example_collaborators
     \<lparr>resolver = example_resolver_void, useSSG = Some True, useSession = None,
      prefetch = None\<rparr>
     example_document_request
   = Inr \<lparr>ctx = example_document_request, isClient = False,
          ssg = Some \<lparr>ssg_user = Some ''alice'', ssg_acceptableOrigin = True,
                      ssg_features = [''articles''], queryCache = []\<rparr>,
          session = Some \<lparr>user = Some ''alice'', expires = ''2026-12-31''\<rparr>,
          features = [''articles'']\<rparr>
   \<and> returned_prop
       (createServerSideProps example_collaborators
          \<lparr>resolver = example_resolver_void, useSSG = Some True, useSession = None,
      prefetch = None\<rparr>
          example_document_request) ''session''
     = Some (SessionValue (Some \<lparr>user = Some ''alice'', expires = ''2026-12-31''\<rparr>))
   \<and> returned_prop
       (createServerSideProps example_collaborators
          \<lparr>resolver = example_resolver_void, useSSG = Some True, useSession = None,
      prefetch = None\<rparr>
          example_document_request) ''trpcState''
     = Some (TrpcState [(''article.getById'', ''42'')])"
proof -
  let ?opts = "\<lparr>resolver = example_resolver_void, useSSG = Some True, useSession = None,
      prefetch = None\<rparr>"
  let ?a = "\<lparr>ctx = example_document_request, isClient = False,
          ssg = Some \<lparr>ssg_user = Some ''alice'', ssg_acceptableOrigin = True,
                      ssg_features = [''articles''], queryCache = []\<rparr>,
          session = Some \<lparr>user = Some ''alice'', expires = ''2026-12-31''\<rparr>,
          features = [''articles'']\<rparr>"
  have arg: "resolver_argument example_collaborators ?opts example_document_request = Inr ?a"
    by (simp add: resolver_argument_def resolve_session_def build_ssg_def request_isClient_def startsWith_def
      nullish_or_def getServerProxySSGHelpers_def Let_def
      example_collaborators_def example_auth_def example_flags_def example_document_request_def)
  have run: "resolver ?opts ?a =
      Inr \<lparr>result = None, prefetched = [(''article.getById'', ''42'')]\<rparr>"
    by (simp add: example_resolver_void_def)
  have res: "result \<lparr>result = None, prefetched = [(''article.getById'', ''42'')]\<rparr> = None"
    by simp
  from void_resolver_still_returns_props [OF arg run res] obtain m where
    m: "createServerSideProps example_collaborators ?opts example_document_request =
          Inr \<lparr>props = Some m, redirect = None, notFound = None\<rparr>"
      "m ''session'' = Some (SessionValue (session ?a))"
      "m ''trpcState'' =
         map_option (\<lambda>h. TrpcState (queryCache h @
            prefetched \<lparr>result = None, prefetched = [(''article.getById'', ''42'')]\<rparr>)) (ssg ?a)"
    by blast
  show ?thesis
    using arg m by (simp add: returned_prop_def)
qed

section \<open>Properties of the articles sitemap\<close>

text \<open>
  Claim C10. If the articles query rejects, the rejection does not propagate: the handler
  goes on with an empty list of items and returns what the sitemap writer returns for zero
  entries.
\<close>

theorem failed_articles_query_yields_empty_sitemap:
  assumes "getArticles env articles_query = Inl e"
  shows "getServerSideProps env context = getServerSideSitemapLegacy env context []"
  using assms by (simp add: getServerSideProps_def)

text \<open>A refused connection: the sitemap writer is run and receives no entry.\<close>

theorem failed_articles_query_yields_empty_sitemap_witness:
  "getArticles example_sitemap_collaborators articles_query = Inl (Rejected ''connection refused'')
   \<and> getServerSideProps example_sitemap_collaborators example_document_request = Inr 0"
  using failed_articles_query_yields_empty_sitemap
    [of example_sitemap_collaborators "Rejected ''connection refused''" example_document_request]
  by (simp add: example_sitemap_collaborators_def example_getArticles_rejecting_def
      example_sitemap_def)

end
